theory Spec2Isabelle
  imports Main "HOL-Library.Sublist"
begin

section \<open>Strings, exceptions and observable effects\<close>

text \<open>
  The two scripts of the agent package (\<^verbatim>\<open>deploy.py\<close> and \<^verbatim>\<open>test_agent.py\<close>) are straight-line
  programs around calls into the Vertex AI SDK and the file system. Each call is answered by
  the world the script runs in; the model takes those answers as a record and returns the
  sequence of effects the script performs together with the way the process ends.

  An exception is either an instance of \<^verbatim>\<open>Exception\<close>, which every \<^verbatim>\<open>except Exception as e\<close>
  of the scripts catches (the string is \<^verbatim>\<open>str(e)\<close>), or of a class outside that hierarchy
  (\<^verbatim>\<open>KeyboardInterrupt\<close>, \<^verbatim>\<open>asyncio.CancelledError\<close>), which those handlers let through.
\<close>

datatype exn = Exception string | Interrupt string

type_synonym path = "string list"

datatype effect =
    Print string
  | Vertexai_init string string "string option"
  | AdkApp
  | Agent_engines_create string
  | Open_write path
  | Write path string
  | Exists path
  | Read_text path
  | Agent_engines_get string
  | Create_session string
  | Stream_query string string string

text \<open>
  A process ends by \<^verbatim>\<open>sys.exit(n)\<close> (falling off the end of the script is \<^verbatim>\<open>Exit 0\<close>) or by an
  exception nobody caught. The interpreter reports an uncaught \<^verbatim>\<open>Exception\<close> with a traceback
  and exit status 1; the status after an uncaught interrupt is not fixed by the scripts.
\<close>

datatype process_end = Exit nat | Uncaught exn


text \<open>The marks the scripts print, as the UTF-8 bytes of U+2713, U+2717 and U+26A0.\<close>

definition check_mark :: string where
  "check_mark = [CHR 0xE2, CHR 0x9C, CHR 0x93]"

definition cross_mark :: string where
  "cross_mark = [CHR 0xE2, CHR 0x9C, CHR 0x97]"

definition warning_sign :: string where
  "warning_sign = [CHR 0xE2, CHR 0x9A, CHR 0xA0]"

definition rule60 :: "char \<Rightarrow> string" where
  "rule60 c = replicate 60 c"

text \<open>\<^verbatim>\<open>str(n)\<close> for a non-negative integer, as the f-strings of the harness format counters.\<close>

fun str_nat :: "nat \<Rightarrow> string" where
  "str_nat n =
     (if n < 10 then [''0123456789'' ! n]
      else str_nat (n div 10) @ [''0123456789'' ! (n mod 10)])"

declare str_nat.simps [simp del]

text \<open>\<^verbatim>\<open>os.getenv(key, default)\<close> over the process environment.\<close>

definition getenv :: "(string \<rightharpoonup> string) \<Rightarrow> string \<Rightarrow> string \<Rightarrow> string" where
  "getenv environ k d = (case environ k of Some v \<Rightarrow> v | None \<Rightarrow> d)"

text \<open>
  \<^verbatim>\<open>str.strip()\<close>: leading and trailing whitespace removed. A \<^typ>\<open>char\<close> stands for a code
  point below 256; \<^verbatim>\<open>str.isspace\<close> holds there for 9 to 13, 28 to 32, 133 and 160.
\<close>

definition isspace :: "char \<Rightarrow> bool" where
  "isspace c =
     (let n = (of_char c :: nat)
      in (9 \<le> n \<and> n \<le> 13) \<or> (28 \<le> n \<and> n \<le> 32) \<or> n = 133 \<or> n = 160)"

definition strip :: "string \<Rightarrow> string" where
  "strip s = rev (dropWhile isspace (rev (dropWhile isspace s)))"

text \<open>\<^verbatim>\<open>str(KeyError(k))\<close> is the \<^verbatim>\<open>repr\<close> of the key.\<close>

definition key_error :: "string \<Rightarrow> exn" where
  "key_error k = Exception ([CHR 0x27] @ k @ [CHR 0x27])"

section \<open>The streamed reply of one query (test\_agent.py, lines 126 to 138)\<close>

text \<open>
  \<^verbatim>\<open>async_stream_query\<close> yields events; an event may carry a \<^verbatim>\<open>text\<close> attribute. The iteration
  ends when the producer is exhausted or raises. The loop keeps the text of every event for
  which \<^verbatim>\<open>hasattr(event, 'text') and event.text\<close> holds: the attribute exists and is a
  non-empty string.
\<close>

datatype stream_event = Event "string option"

datatype stream_item = Yield stream_event | Throw exn

fun has_text :: "stream_event \<Rightarrow> bool" where
  "has_text (Event None) = False"
| "has_text (Event (Some s)) = (s \<noteq> [])"

fun text_of :: "stream_event \<Rightarrow> string" where
  "text_of (Event None) = []"
| "text_of (Event (Some s)) = s"

fun collect_parts :: "stream_item list \<Rightarrow> string list \<Rightarrow> exn + string list" where
  "collect_parts [] response_parts = Inr response_parts"
| "collect_parts (Yield event # rest) response_parts =
     collect_parts rest
       (if has_text event then response_parts @ [text_of event] else response_parts)"
| "collect_parts (Throw e # rest) response_parts = Inl e"

definition full_response :: "string list \<Rightarrow> string" where
  "full_response response_parts = concat response_parts"

definition stream_response :: "stream_item list \<Rightarrow> exn + string" where
  "stream_response items =
     (case collect_parts items [] of
        Inl e \<Rightarrow> Inl e
      | Inr response_parts \<Rightarrow> Inr (full_response response_parts))"

text \<open>A producer that yields the given fragments, each as the text of one event, and completes.\<close>

definition fragments :: "string list \<Rightarrow> stream_item list" where
  "fragments fs = map (\<lambda>s. Yield (Event (Some s))) fs"

section \<open>The agent's tool listing (agent.py, lines 36 to 72)\<close>

text \<open>
  \<^verbatim>\<open>root_agent\<close> is an \<^verbatim>\<open>LlmAgent\<close> whose instruction text is sent to the language model. The
  text advertises the analytics tools by number and name, each with a line of required
  parameters and, for most, a line of optional ones; a parameter may carry a range, a set of
  literal values or a default. The same text carries one guideline on the tenant: the model
  is told to use \<^verbatim>\<open>tenant_id: "senso-sushi"\<close> whenever it calls a tool.
\<close>

datatype constraint = Free | Range int int | One_of "string list" | Default_bool bool

type_synonym parameter = "string \<times> constraint"

record operation =
  op_name :: string
  description :: string
  required :: "parameter list"
  optional :: "parameter list"

definition tool_listing :: "operation list" where
  "tool_listing =
    [\<lparr>op_name = ''show_daily_sales'',
      description = ''Daily sales breakdown for a date range'',
      required = [(''startDate'', Free), (''endDate'', Free)],
      optional = [(''category'', Free)]\<rparr>,
     \<lparr>op_name = ''show_top_items'',
      description = ''Top N best-selling items by revenue'',
      required = [(''limit'', Range 1 1000), (''startDate'', Free), (''endDate'', Free)],
      optional = [(''category'', Free)]\<rparr>,
     \<lparr>op_name = ''show_category_breakdown'',
      description = ''Sales by primary category'',
      required = [(''startDate'', Free), (''endDate'', Free)],
      optional = [(''includeBeer'', Default_bool True)]\<rparr>,
     \<lparr>op_name = ''get_total_sales'',
      description = ''Total sales for a period (single aggregate)'',
      required = [(''startDate'', Free), (''endDate'', Free)],
      optional = [(''category'', Free)]\<rparr>,
     \<lparr>op_name = ''find_peak_day'',
      description = ''Find highest or lowest sales day'',
      required = [(''startDate'', Free), (''endDate'', Free),
                  (''type'', One_of [''highest'', ''lowest''])],
      optional = [(''category'', Free)]\<rparr>,
     \<lparr>op_name = ''compare_day_types'',
      description = ''Compare weekdays vs weekends'',
      required = [(''startDate'', Free), (''endDate'', Free),
                  (''comparison'', One_of [''weekday_vs_weekend'', ''by_day_of_week''])],
      optional = [(''category'', Free)]\<rparr>,
     \<lparr>op_name = ''track_item_performance'',
      description = ''Track specific item over time'',
      required = [(''itemName'', Free), (''startDate'', Free), (''endDate'', Free)],
      optional = []\<rparr>,
     \<lparr>op_name = ''compare_periods'',
      description = ''Compare two time periods'',
      required = [(''startDate1'', Free), (''endDate1'', Free),
                  (''startDate2'', Free), (''endDate2'', Free)],
      optional = [(''category'', Free), (''itemName'', Free)]\<rparr>]"

definition tenant_guideline :: "string \<times> string" where
  "tenant_guideline = (''tenant_id'', ''senso-sushi'')"

definition lookup :: "string \<Rightarrow> operation option" where
  "lookup n = find (\<lambda>p. op_name p = n) tool_listing"

text \<open>
  The table of the tool server's interface as the specification words it: operation,
  required fields, optional fields.
\<close>

definition interface_table :: "(string \<times> parameter list \<times> parameter list) list" where
  "interface_table =
    [(''show_daily_sales'',
        [(''startDate'', Free), (''endDate'', Free)], [(''category'', Free)]),
     (''show_top_items'',
        [(''limit'', Range 1 1000), (''startDate'', Free), (''endDate'', Free)],
        [(''category'', Free)]),
     (''show_category_breakdown'',
        [(''startDate'', Free), (''endDate'', Free)], [(''includeBeer'', Default_bool True)]),
     (''get_total_sales'',
        [(''startDate'', Free), (''endDate'', Free)], [(''category'', Free)]),
     (''find_peak_day'',
        [(''startDate'', Free), (''endDate'', Free), (''type'', One_of [''highest'', ''lowest''])],
        [(''category'', Free)]),
     (''compare_day_types'',
        [(''startDate'', Free), (''endDate'', Free),
         (''comparison'', One_of [''weekday_vs_weekend'', ''by_day_of_week''])],
        [(''category'', Free)]),
     (''track_item_performance'',
        [(''itemName'', Free), (''startDate'', Free), (''endDate'', Free)], []),
     (''compare_periods'',
        [(''startDate1'', Free), (''endDate1'', Free), (''startDate2'', Free),
         (''endDate2'', Free)],
        [(''category'', Free), (''itemName'', Free)])]"

section \<open>The host of a script\<close>

text \<open>
  Both scripts use files in text mode with the default \<^verbatim>\<open>newline=None\<close>. Writing turns every
  line feed into \<^verbatim>\<open>os.linesep\<close>, which is a line feed on POSIX and a carriage return followed
  by a line feed on Windows. Reading is in universal-newline mode: a carriage return followed
  by a line feed, and a carriage return alone, are each read as one line feed.
\<close>

datatype platform = Posix | Windows

fun linesep :: "platform \<Rightarrow> string" where
  "linesep Posix = [CHR 0x0A]"
| "linesep Windows = [CHR 0x0D, CHR 0x0A]"

definition write_text :: "platform \<Rightarrow> string \<Rightarrow> string" where
  "write_text p s = concat (map (\<lambda>c. if c = CHR 0x0A then linesep p else [c]) s)"

fun universal_newlines :: "string \<Rightarrow> string" where
  "universal_newlines (c # d # cs) =
     (if c = CHR 0x0D \<and> d = CHR 0x0A then CHR 0x0A # universal_newlines cs
      else (if c = CHR 0x0D then CHR 0x0A else c) # universal_newlines (d # cs))"
| "universal_newlines [c] = [if c = CHR 0x0D then CHR 0x0A else c]"
| "universal_newlines [] = []"

text \<open>
  What both scripts read from their host: the process environment, the directory of the
  script file (\<^verbatim>\<open>Path(__file__).parent\<close>), the platform, the files on disk, and the answer
  of \<^verbatim>\<open>vertexai.init\<close>. A path is its list of components. The files are a map from paths to
  the characters stored there.
\<close>

record host =
  environ :: "string \<rightharpoonup> string"
  here :: path
  platform :: platform
  files :: "path \<rightharpoonup> string"
  vertexai_init :: "exn + unit"

definition PROJECT_ID :: "(string \<rightharpoonup> string) \<Rightarrow> string" where
  "PROJECT_ID env = getenv env ''PROJECT_ID'' ''fdsanalytics''"

definition REGION :: "(string \<rightharpoonup> string) \<Rightarrow> string" where
  "REGION env = getenv env ''REGION'' ''us-central1''"

definition STAGING_BUCKET :: "(string \<rightharpoonup> string) \<Rightarrow> string" where
  "STAGING_BUCKET env =
     getenv env ''STAGING_BUCKET'' (''gs://'' @ PROJECT_ID env @ ''-agent-staging'')"

definition AGENT_DISPLAY_NAME :: "(string \<rightharpoonup> string) \<Rightarrow> string" where
  "AGENT_DISPLAY_NAME env = getenv env ''AGENT_DISPLAY_NAME'' ''FDS Analytics Agent''"

definition resource_file :: "path \<Rightarrow> path" where
  "resource_file dir = dir @ [''.agent_resource'']"

fun path_str :: "path \<Rightarrow> string" where
  "path_str [] = []"
| "path_str [c] = c"
| "path_str (c # cs) = c @ ''/'' @ path_str cs"

definition after :: "effect list \<Rightarrow> effect list \<times> 'a \<Rightarrow> effect list \<times> 'a" where
  "after es r = (es @ fst r, snd r)"

section \<open>The deploy script (deploy.py)\<close>

datatype save_outcome = Saved | Open_raises exn | Write_raises exn

text \<open>
  The deploy script's world adds the outcome of its imports (lines 17 to 22; importing
  \<^verbatim>\<open>agent\<close> runs agent.py, which reads the OpenAPI file and builds the agent), and the answers
  of \<^verbatim>\<open>agent_engines.AdkApp\<close>, of \<^verbatim>\<open>agent_engines.create\<close> (the resource name of the deployed
  application) and of the attempt to save that name.
\<close>

record deploy_world = host +
  module_imports :: "exn + unit"
  adk_app :: "exn + unit"
  agent_engines_create :: "exn + string"
  save :: save_outcome

definition deploy_banner :: "(string \<rightharpoonup> string) \<Rightarrow> effect list" where
  "deploy_banner env =
    [Print (rule60 CHR ''=''),
     Print ''FDS Analytics Agent - Deployment'',
     Print (rule60 CHR ''=''),
     Print (''Project ID:      '' @ PROJECT_ID env),
     Print (''Region:          '' @ REGION env),
     Print (''Staging Bucket:  '' @ STAGING_BUCKET env),
     Print (''Display Name:    '' @ AGENT_DISPLAY_NAME env),
     Print (rule60 CHR ''='')]"

text \<open>Lines 94 to 106: the deployment summary.\<close>

definition deployment_summary :: "(string \<rightharpoonup> string) \<Rightarrow> string \<Rightarrow> effect list" where
  "deployment_summary env resource_name =
    [Print (CHR 0x0A # rule60 CHR ''=''),
     Print ''DEPLOYMENT SUCCESSFUL!'',
     Print (rule60 CHR ''=''),
     Print (CHR 0x0A # ''Resource Name:''),
     Print (''  '' @ resource_name),
     Print (CHR 0x0A # ''API Endpoint:''),
     Print (''  https://'' @ REGION env @ ''-aiplatform.googleapis.com/v1/'' @ resource_name
            @ '':query''),
     Print (CHR 0x0A # ''Test the agent:''),
     Print ''  python test_agent.py'',
     Print (CHR 0x0A # ''View in Console:''),
     Print (''  https://console.cloud.google.com/vertex-ai/agents?project='' @ PROJECT_ID env),
     Print (CHR 0x0A # rule60 CHR ''='')]"

text \<open>
  Lines 84 to 92: the resource name is written, in text mode, to \<^verbatim>\<open>.agent_resource\<close> beside
  the script. Opening the file for writing truncates it; an \<^verbatim>\<open>Exception\<close> from \<^verbatim>\<open>open\<close> or
  \<^verbatim>\<open>write\<close> is caught and reported as a warning. The result is the effects, the exception
  that escapes (if any) and the files afterwards.
\<close>

definition save_resource_name ::
  "deploy_world \<Rightarrow> string \<Rightarrow> effect list \<times> exn option \<times> (path \<rightharpoonup> string)" where
  "save_resource_name w resource_name =
    (let f = resource_file (here w);
         t = [Print (CHR 0x0A # ''[4/4] Saving deployment information...''), Open_write f];
         warning = (\<lambda>e. Print (warning_sign @ '' Warning: Could not save resource name: '' @ e))
     in case save w of
          Saved \<Rightarrow>
            (t @ [Write f resource_name,
                  Print (check_mark @ '' Resource name saved to: '' @ path_str f)],
             None, (files w)(f \<mapsto> write_text (platform w) resource_name))
        | Open_raises (Exception e) \<Rightarrow> (t @ [warning e], None, files w)
        | Open_raises (Interrupt e) \<Rightarrow> (t, Some (Interrupt e), files w)
        | Write_raises (Exception e) \<Rightarrow>
            (t @ [Write f resource_name, warning e], None, (files w)(f \<mapsto> []))
        | Write_raises (Interrupt e) \<Rightarrow>
            (t @ [Write f resource_name], Some (Interrupt e), (files w)(f \<mapsto> [])))"

text \<open>Lines 84 to 106: saving, then the summary; the script ends by falling off its end.\<close>

definition save_and_summarise ::
  "deploy_world \<Rightarrow> string \<Rightarrow> effect list \<times> process_end \<times> (path \<rightharpoonup> string)" where
  "save_and_summarise w resource_name =
    (case save_resource_name w resource_name of
       (t, Some e, fs) \<Rightarrow> (t, Uncaught e, fs)
     | (t, None, fs) \<Rightarrow> (t @ deployment_summary (environ w) resource_name, Exit 0, fs))"

text \<open>Lines 67 to 82: the deployment to the Agent Engine.\<close>

definition create_and_save ::
  "deploy_world \<Rightarrow> effect list \<times> process_end \<times> (path \<rightharpoonup> string)" where
  "create_and_save w =
    (let t = [Print (CHR 0x0A # ''[3/4] Deploying to Vertex AI Agent Engine...''),
              Print ''(This may take 2-3 minutes...)'',
              Agent_engines_create (AGENT_DISPLAY_NAME (environ w))]
     in case agent_engines_create w of
          Inl (Exception e) \<Rightarrow>
            (t @ [Print (cross_mark @ '' Deployment failed: '' @ e)], Exit 1, files w)
        | Inl (Interrupt e) \<Rightarrow> (t, Uncaught (Interrupt e), files w)
        | Inr resource_name \<Rightarrow>
            after (t @ [Print (check_mark @ '' Agent deployed successfully!'')])
              (save_and_summarise w resource_name))"

text \<open>Lines 55 to 65: the agent is wrapped in an \<^verbatim>\<open>AdkApp\<close>.\<close>

definition wrap_and_create ::
  "deploy_world \<Rightarrow> effect list \<times> process_end \<times> (path \<rightharpoonup> string)" where
  "wrap_and_create w =
    (let t = [Print (CHR 0x0A # ''[2/4] Wrapping agent with AdkApp...''), AdkApp]
     in case adk_app w of
          Inl (Exception e) \<Rightarrow>
            (t @ [Print (cross_mark @ '' Failed to wrap agent: '' @ e)], Exit 1, files w)
        | Inl (Interrupt e) \<Rightarrow> (t, Uncaught (Interrupt e), files w)
        | Inr _ \<Rightarrow>
            after (t @ [Print (check_mark @ '' Agent wrapped successfully'')])
              (create_and_save w))"

text \<open>Lines 24 to 53: configuration, banner and SDK initialisation, then the rest.\<close>

definition initialise_and_wrap ::
  "deploy_world \<Rightarrow> effect list \<times> process_end \<times> (path \<rightharpoonup> string)" where
  "initialise_and_wrap w =
    (let env = environ w;
         t = deploy_banner env @
             [Print (CHR 0x0A # ''[1/4] Initializing Vertex AI SDK...''),
              Vertexai_init (PROJECT_ID env) (REGION env) (Some (STAGING_BUCKET env))]
     in case vertexai_init w of
          Inl (Exception e) \<Rightarrow>
            (t @ [Print (cross_mark @ '' Failed to initialize Vertex AI: '' @ e)], Exit 1,
             files w)
        | Inl (Interrupt e) \<Rightarrow> (t, Uncaught (Interrupt e), files w)
        | Inr _ \<Rightarrow>
            after (t @ [Print (check_mark @ '' Vertex AI initialized'')]) (wrap_and_create w))"

text \<open>The whole script: the imports, outside any handler, then everything else.\<close>

definition deploy :: "deploy_world \<Rightarrow> effect list \<times> process_end \<times> (path \<rightharpoonup> string)" where
  "deploy w =
    (case module_imports w of
       Inl e \<Rightarrow> ([], Uncaught e, files w)
     | Inr _ \<Rightarrow> initialise_and_wrap w)"

section \<open>The test harness (test\_agent.py)\<close>

record test_query =
  name :: string
  query :: string
  expected_tool :: string

definition TEST_QUERIES :: "test_query list" where
  "TEST_QUERIES =
    [\<lparr>name = ''Daily Sales Query'',
      query = ''Show me daily sales for May 2025'',
      expected_tool = ''show_daily_sales''\<rparr>,
     \<lparr>name = ''Top Items Query'',
      query = ''What are the top 10 items in July 2025?'',
      expected_tool = ''show_top_items''\<rparr>,
     \<lparr>name = ''Category Breakdown Query'',
      query = ''Show me sales by category for May 2025'',
      expected_tool = ''show_category_breakdown''\<rparr>,
     \<lparr>name = ''Period Comparison Query'',
      query = ''Compare May and June 2025 sales'',
      expected_tool = ''compare_periods''\<rparr>,
     \<lparr>name = ''Peak Day Query'',
      query = ''What was the best sales day in May 2025?'',
      expected_tool = ''find_peak_day''\<rparr>]"

text \<open>
  The harness's world adds: whether the SDK imports; the timestamp
  \<^verbatim>\<open>datetime.now().strftime('%Y%m%d_%H%M%S')\<close>; the answers of \<^verbatim>\<open>agent_engines.get\<close> (by resource
  name) and of \<^verbatim>\<open>async_create_session\<close> (by user id: a session is a dictionary, kept as an
  association list); and the stream \<^verbatim>\<open>async_stream_query\<close> produces for the query of a given
  number, user id, session id and message.
\<close>

record harness_world = host +
  sdk_installed :: bool
  now :: string
  agent_engines_get :: "string \<Rightarrow> exn + unit"
  async_create_session :: "string \<Rightarrow> exn + (string \<times> string) list"
  async_stream_query :: "nat \<Rightarrow> string \<Rightarrow> string \<Rightarrow> string \<Rightarrow> stream_item list"

text \<open>Lines 122 to 124.\<close>

definition test_header :: "nat \<Rightarrow> nat \<Rightarrow> test_query \<Rightarrow> effect list" where
  "test_header i n test =
    [Print (''[Test '' @ str_nat i @ ''/'' @ str_nat n @ ''] '' @ name test),
     Print (''Query: '' @ query test),
     Print []]"

text \<open>
  Lines 127 to 138, the body of the \<^verbatim>\<open>try\<close> up to the joined response: the session's user id
  is looked up (a missing key raises \<^verbatim>\<open>KeyError\<close>), the query is sent and its stream consumed.
\<close>

definition send_query ::
  "harness_world \<Rightarrow> (string \<times> string) list \<Rightarrow> string \<Rightarrow> nat \<Rightarrow> test_query
     \<Rightarrow> effect list \<times> (exn + string)" where
  "send_query w session session_id i test =
    (case map_of session ''user_id'' of
       None \<Rightarrow> ([], Inl (key_error ''user_id''))
     | Some user_id \<Rightarrow>
         ([Stream_query user_id session_id (query test)],
          stream_response (async_stream_query w i user_id session_id (query test))))"

text \<open>Lines 140 to 151: a non-empty response passes, an empty one fails.\<close>

definition report_response :: "string \<Rightarrow> effect list \<times> bool" where
  "report_response response =
    (if response \<noteq> [] then
       ([Print ''Response:'', Print (rule60 CHR ''-''), Print (take 500 response)]
        @ (if length response > 500 then [Print ''... (truncated)''] else [])
        @ [Print (rule60 CHR ''-''), Print (check_mark @ '' Test passed'')], True)
     else ([Print (cross_mark @ '' Test failed: No response received'')], False))"

text \<open>
  Lines 121 to 157, one iteration: the result is whether the query passed, or the exception
  that the handler of line 153 does not catch.
\<close>

definition run_test ::
  "harness_world \<Rightarrow> (string \<times> string) list \<Rightarrow> string \<Rightarrow> nat \<Rightarrow> nat \<Rightarrow> test_query
     \<Rightarrow> effect list \<times> (exn + bool)" where
  "run_test w session session_id i n test =
    (case send_query w session session_id i test of
       (t, Inr response) \<Rightarrow>
         (test_header i n test @ t @ fst (report_response response) @ [Print []],
          Inr (snd (report_response response)))
     | (t, Inl (Exception e)) \<Rightarrow>
         (test_header i n test @ t @ [Print (cross_mark @ '' Test failed: '' @ e), Print []],
          Inr False)
     | (t, Inl (Interrupt e)) \<Rightarrow> (test_header i n test @ t, Inl (Interrupt e)))"

text \<open>The loop over the queries, numbered from \<open>i\<close>, with the counters \<open>passed\<close> and \<open>failed\<close>.\<close>

fun run_tests ::
  "harness_world \<Rightarrow> (string \<times> string) list \<Rightarrow> string \<Rightarrow> nat \<Rightarrow> nat \<Rightarrow> test_query list
     \<Rightarrow> nat \<times> nat \<Rightarrow> effect list \<times> (exn + nat \<times> nat)" where
  "run_tests w session session_id n i [] counts = ([], Inr counts)"
| "run_tests w session session_id n i (test # tests) (passed, failed) =
     (case run_test w session session_id i n test of
        (t, Inl e) \<Rightarrow> (t, Inl e)
      | (t, Inr ok) \<Rightarrow>
          after t (run_tests w session session_id n (i + 1) tests
                     (if ok then (passed + 1, failed) else (passed, failed + 1))))"

text \<open>
  Lines 159 to 169. The success rate is a floating-point quotient formatted to one decimal;
  its line is kept as the two counters it is computed from. With no query at all the
  quotient raises \<^verbatim>\<open>ZeroDivisionError\<close>.
\<close>

definition success_rate_line :: "nat \<Rightarrow> nat \<Rightarrow> string" where
  "success_rate_line passed n =
     ''Success rate: {('' @ str_nat passed @ ''/'' @ str_nat n @ ''*100):.1f}%''"

definition test_summary :: "nat \<Rightarrow> nat \<Rightarrow> nat \<Rightarrow> effect list \<times> (process_end + bool)" where
  "test_summary n passed failed =
    (let t = [Print (rule60 CHR ''=''),
              Print ''Test Summary'',
              Print (rule60 CHR ''=''),
              Print (''Total tests:  '' @ str_nat n),
              Print (''Passed:       '' @ str_nat passed @ '' '' @ check_mark),
              Print (''Failed:       '' @ str_nat failed @ '' '' @ cross_mark)]
     in if n = 0 then (t, Inl (Uncaught (Exception ''division by zero'')))
        else (t @ [Print (success_rate_line passed n), Print (rule60 CHR ''='')],
              Inr (failed = 0)))"

text \<open>Lines 112 to 169: the queries are run and summarised.\<close>

definition run_and_summarise ::
  "harness_world \<Rightarrow> test_query list \<Rightarrow> (string \<times> string) list \<Rightarrow> string
     \<Rightarrow> effect list \<times> (process_end + bool)" where
  "run_and_summarise w tests session session_id =
    (let t = [Print (rule60 CHR ''=''), Print ''Running Test Queries'',
              Print (rule60 CHR ''=''), Print []]
     in case run_tests w session session_id (length tests) 1 tests (0, 0) of
          (t', Inl e) \<Rightarrow> (t @ t', Inl (Uncaught e))
        | (t', Inr (passed, failed)) \<Rightarrow>
            after (t @ t') (test_summary (length tests) passed failed))"

text \<open>Lines 99 to 110: the test session; a session without an \<^verbatim>\<open>id\<close> raises \<^verbatim>\<open>KeyError\<close>.\<close>

definition create_session_and_run ::
  "harness_world \<Rightarrow> test_query list \<Rightarrow> effect list \<times> (process_end + bool)" where
  "create_session_and_run w tests =
    (let user_id = ''test_user_'' @ now w;
         t = [Print ''[3/3] Creating test session...'', Create_session user_id];
         failed = (\<lambda>e. (t @ [Print (cross_mark @ '' Failed to create session: '' @ e)],
                         Inl (Exit 1)))
     in case async_create_session w user_id of
          Inl (Exception e) \<Rightarrow> failed e
        | Inl (Interrupt e) \<Rightarrow> (t, Inl (Uncaught (Interrupt e)))
        | Inr session \<Rightarrow>
            (case map_of session ''id'' of
               None \<Rightarrow> (case key_error ''id'' of Exception e \<Rightarrow> failed e
                         | Interrupt e \<Rightarrow> (t, Inl (Uncaught (Interrupt e))))
             | Some session_id \<Rightarrow>
                 after (t @ [Print (check_mark @ '' Session created: '' @ session_id),
                             Print []])
                   (run_and_summarise w tests session session_id)))"

text \<open>Lines 84 to 97: the deployed agent is fetched by its resource name.\<close>

definition connect_and_run ::
  "harness_world \<Rightarrow> test_query list \<Rightarrow> string \<Rightarrow> effect list \<times> (process_end + bool)" where
  "connect_and_run w tests resource_name =
    (let t = [Print ''[2/3] Connecting to deployed agent...'',
              Agent_engines_get resource_name]
     in case agent_engines_get w resource_name of
          Inl (Exception e) \<Rightarrow>
            (t @ [Print (cross_mark @ '' Failed to connect: '' @ e),
                  Print [],
                  Print ''Troubleshooting:'',
                  Print ''  1. Verify agent is deployed: gcloud ai reasoning-engines list'',
                  Print ''  2. Check resource name in .agent_resource file'',
                  Print ''  3. Ensure you have permission to access the agent''],
             Inl (Exit 1))
        | Inl (Interrupt e) \<Rightarrow> (t, Inl (Uncaught (Interrupt e)))
        | Inr _ \<Rightarrow>
            after (t @ [Print (check_mark @ '' Connected to agent: '' @ resource_name),
                        Print []])
              (create_session_and_run w tests))"

text \<open>
  \<^verbatim>\<open>test_agent(resource_name)\<close>, lines 63 to 169, over the list of queries: it returns whether
  no query failed, or ends the process. \<^verbatim>\<open>vertexai.init\<close> is called outside any handler.
\<close>

definition test_agent ::
  "harness_world \<Rightarrow> test_query list \<Rightarrow> string \<Rightarrow> effect list \<times> (process_end + bool)" where
  "test_agent w tests resource_name =
    (let env = environ w;
         t = [Print (rule60 CHR ''=''),
              Print ''FDS Analytics Agent - Test Suite'',
              Print (rule60 CHR ''=''),
              Print (''Project ID:  '' @ PROJECT_ID env),
              Print (''Region:      '' @ REGION env),
              Print (''Resource:    '' @ resource_name),
              Print (rule60 CHR ''=''),
              Print [],
              Print ''[1/3] Initializing Vertex AI SDK...'',
              Vertexai_init (PROJECT_ID env) (REGION env) None]
     in case vertexai_init w of
          Inl e \<Rightarrow> (t, Inl (Uncaught e))
        | Inr _ \<Rightarrow>
            after (t @ [Print (check_mark @ '' Initialized''), Print []])
              (connect_and_run w tests resource_name))"

text \<open>Lines 195 to 198: the test run decides the exit code.\<close>

definition run_and_exit ::
  "harness_world \<Rightarrow> test_query list \<Rightarrow> string \<Rightarrow> effect list \<times> process_end" where
  "run_and_exit w tests resource_name =
    (case test_agent w tests resource_name of
       (t, Inl ended) \<Rightarrow> (t, ended)
     | (t, Inr success) \<Rightarrow> (t, Exit (if success then 0 else 1)))"

text \<open>
  Lines 175 to 193 of \<^verbatim>\<open>main()\<close>, over \<^verbatim>\<open>sys.argv\<close>: the resource name is the value after a
  leading \<^verbatim>\<open>--resource\<close>, or else the content of \<^verbatim>\<open>.agent_resource\<close> beside the script, as
  \<^verbatim>\<open>read_text()\<close> returns it in universal-newline mode, stripped; with neither, usage is printed
  and the process exits with 1.
\<close>

definition resource_name_of :: "harness_world \<Rightarrow> string list \<Rightarrow> effect list \<times> string option" where
  "resource_name_of w argv =
    (if length argv > 1 \<and> argv ! 1 = ''--resource'' \<and> length argv > 2 then
       ([], Some (argv ! 2))
     else
       (let f = resource_file (here w)
        in case files w f of
             Some content \<Rightarrow>
               ([Exists f, Read_text f], Some (strip (universal_newlines content)))
           | None \<Rightarrow>
               ([Exists f,
                 Print ''Error: Agent resource name not found'',
                 Print [],
                 Print ''Usage:'',
                 Print ''  python test_agent.py --resource RESOURCE_NAME'',
                 Print [],
                 Print ''Or deploy the agent first:'',
                 Print ''  python deploy.py''],
                None)))"

text \<open>\<^verbatim>\<open>main()\<close>, lines 172 to 198, over the list of queries.\<close>

definition main :: "harness_world \<Rightarrow> test_query list \<Rightarrow> string list \<Rightarrow> effect list \<times> process_end" where
  "main w tests argv =
    (case resource_name_of w argv of
       (t, None) \<Rightarrow> (t, Exit 1)
     | (t, Some resource_name) \<Rightarrow> after t (run_and_exit w tests resource_name))"


section \<open>Observations on a run\<close>

text \<open>
  The calls a run makes into the SDK, in order; whether an effect touches the file system;
  and the lines that report a failure (they start with the cross mark or with \<^verbatim>\<open>Error:\<close>).
\<close>

datatype call = Init | Wrap | Create | Get string | Session | Query string

fun sdk_call :: "effect \<Rightarrow> call list" where
  "sdk_call (Vertexai_init p r b) = [Init]"
| "sdk_call AdkApp = [Wrap]"
| "sdk_call (Agent_engines_create d) = [Create]"
| "sdk_call (Agent_engines_get r) = [Get r]"
| "sdk_call (Create_session u) = [Session]"
| "sdk_call (Stream_query u s m) = [Query m]"
| "sdk_call (Print s) = []"
| "sdk_call (Open_write f) = []"
| "sdk_call (Write f s) = []"
| "sdk_call (Exists f) = []"
| "sdk_call (Read_text f) = []"

definition sdk_calls :: "effect list \<Rightarrow> call list" where
  "sdk_calls t = concat (map sdk_call t)"


fun diagnostic :: "effect \<Rightarrow> bool" where
  "diagnostic (Print s) = (prefix cross_mark s \<or> prefix ''Error:'' s)"
| "diagnostic (Vertexai_init p r b) = False"
| "diagnostic AdkApp = False"
| "diagnostic (Agent_engines_create d) = False"
| "diagnostic (Open_write f) = False"
| "diagnostic (Write f s) = False"
| "diagnostic (Exists f) = False"
| "diagnostic (Read_text f) = False"
| "diagnostic (Agent_engines_get r) = False"
| "diagnostic (Create_session u) = False"
| "diagnostic (Stream_query u s m) = False"

text \<open>The text fragments that arrive from a producer before it completes or raises.\<close>

fun arrived :: "stream_item list \<Rightarrow> string list" where
  "arrived [] = []"
| "arrived (Yield event # rest) = (if has_text event then [text_of event] else []) @ arrived rest"
| "arrived (Throw e # rest) = []"

fun completes :: "stream_item list \<Rightarrow> bool" where
  "completes [] = True"
| "completes (Yield event # rest) = completes rest"
| "completes (Throw e # rest) = False"


definition every_query_passes ::
  "harness_world \<Rightarrow> test_query list \<Rightarrow> (string \<times> string) list \<Rightarrow> string \<Rightarrow> bool" where
  "every_query_passes w tests session session_id =
     list_all (\<lambda>k. snd (run_test w session session_id (Suc k) (length tests) (tests ! k)) = Inr True)
       [0..<length tests]"

definition session_succeeds :: "harness_world \<Rightarrow> test_query list \<Rightarrow> bool" where
  "session_succeeds w tests =
     (case async_create_session w (''test_user_'' @ now w) of
        Inl e \<Rightarrow> False
      | Inr session \<Rightarrow>
          (case map_of session ''id'' of
             None \<Rightarrow> False
           | Some session_id \<Rightarrow>
               tests \<noteq> [] \<and> every_query_passes w tests session session_id))"

definition harness_succeeds :: "harness_world \<Rightarrow> test_query list \<Rightarrow> string list \<Rightarrow> bool" where
  "harness_succeeds w tests argv =
    (case snd (resource_name_of w argv) of
       None \<Rightarrow> False
     | Some resource_name \<Rightarrow>
         \<not> isl (vertexai_init w) \<and> \<not> isl (agent_engines_get w resource_name)
         \<and> session_succeeds w tests)"


section \<open>Example runs\<close>

text \<open>
  Concrete worlds on which the theorems below are exercised: a deployment that goes through
  up to the saving of the resource name, and a harness run in which every query receives the
  same stream.
\<close>

definition example_resource :: string where
  "example_resource = ''projects/1/locations/us-central1/reasoningEngines/7''"

definition deploy_example :: "exn + string \<Rightarrow> save_outcome \<Rightarrow> deploy_world" where
  "deploy_example created saved =
     \<lparr>environ = Map.empty, here = [''agent''], platform = Posix, files = Map.empty,
      vertexai_init = Inr (), module_imports = Inr (), adk_app = Inr (),
      agent_engines_create = created, save = saved\<rparr>"

definition harness_example :: "(path \<rightharpoonup> string) \<Rightarrow> stream_item list \<Rightarrow> harness_world" where
  "harness_example fs items =
     \<lparr>environ = Map.empty, here = [''agent''], platform = Posix, files = fs,
      vertexai_init = Inr (), sdk_installed = True, now = ''20250101_120000'',
      agent_engines_get = (\<lambda>r. Inr ()),
      async_create_session = (\<lambda>u. Inr [(''id'', ''s1''), (''user_id'', u)]),
      async_stream_query = (\<lambda>i u s m. items)\<rparr>"

definition cr_name :: string where
  "cr_name = [CHR ''a'', CHR 0x0D, CHR ''b'']"

definition example_session :: "(string \<times> string) list" where
  "example_session = [(''id'', ''s1''), (''user_id'', ''u1'')]"

definition cut_stream :: "stream_item list" where
  "cut_stream =
     [Yield (Event (Some ''Sales '')), Yield (Event (Some ''were '')),
      Throw (Exception ''connection reset'')]"

definition cancelled_stream :: "stream_item list" where
  "cancelled_stream =
     [Yield (Event (Some ''Sales '')), Yield (Event (Some ''were '')),
      Throw (Interrupt ''CancelledError'')]"

section \<open>Aggregation of a completed stream\<close>

lemma collect_parts_fragments:
  "collect_parts (fragments fs) acc = Inr (acc @ filter (\<lambda>s. s \<noteq> []) fs)"
  by (induction fs arbitrary: acc) (simp_all add: fragments_def)

lemma concat_filter_nonempty: "concat (filter (\<lambda>s. s \<noteq> []) fs) = concat fs"
  by (induction fs) simp_all

text \<open>
  Claim C2. For every finite sequence of text fragments streamed to completion, the parts the
  loop collects are exactly the non-empty fragments in arrival order, and the joined response
  is the left-to-right concatenation of all the fragments: nothing is dropped, duplicated or
  reordered. For the fragments "Sales ", "were ", "$500" the response is "Sales were $500".
\<close>

theorem aggregate_is_concatenation:
  "collect_parts (fragments fs) [] = Inr (filter (\<lambda>s. s \<noteq> []) fs)
   \<and> stream_response (fragments fs) = Inr (concat fs)
   \<and> stream_response (fragments [''Sales '', ''were '', ''$500'']) = Inr ''Sales were $500''"
  by (simp add: stream_response_def collect_parts_fragments full_response_def
      concat_filter_nonempty)

section \<open>The tool listing against the interface table\<close>

text \<open>
  Claim C5. The tool listing advertised to the language model has exactly eight operations,
  show_daily_sales, show_top_items, show_category_breakdown, get_total_sales, find_peak_day,
  compare_day_types, track_item_performance and compare_periods, with pairwise distinct
  names, and each carries exactly the required and optional parameters of the interface
  table: show_top_items requires limit (1 to 1000), startDate and endDate with category
  optional; track_item_performance requires itemName, startDate and endDate and has no
  optional parameter; the type of find_peak_day is one of "highest" and "lowest".
\<close>

theorem tool_listing_matches_interface:
  "length tool_listing = 8
   \<and> map op_name tool_listing =
       [''show_daily_sales'', ''show_top_items'', ''show_category_breakdown'',
        ''get_total_sales'', ''find_peak_day'', ''compare_day_types'',
        ''track_item_performance'', ''compare_periods'']
   \<and> distinct (map op_name tool_listing)
   \<and> map (\<lambda>p. (op_name p, required p, optional p)) tool_listing = interface_table
   \<and> map_option (\<lambda>p. (required p, optional p)) (lookup ''show_top_items'') =
       Some ([(''limit'', Range 1 1000), (''startDate'', Free), (''endDate'', Free)],
             [(''category'', Free)])
   \<and> map_option (\<lambda>p. (required p, optional p)) (lookup ''track_item_performance'') =
       Some ([(''itemName'', Free), (''startDate'', Free), (''endDate'', Free)], [])
   \<and> map_option (\<lambda>p. map_of (required p) ''type'') (lookup ''find_peak_day'') =
       Some (Some (One_of [''highest'', ''lowest'']))"
  by (simp add: tool_listing_def interface_table_def lookup_def)

section \<open>Streams and single queries\<close>

lemma collect_parts_arrived:
  "completes items \<Longrightarrow> collect_parts items acc = Inr (acc @ arrived items)"
  by (induction items acc rule: collect_parts.induct) auto

lemma collect_parts_raises:
  "\<not> completes items \<Longrightarrow> \<exists>e. collect_parts items acc = Inl e \<and> Throw e \<in> set items"
  by (induction items acc rule: collect_parts.induct) auto

lemma collect_parts_prefix_raise:
  "collect_parts (map Yield evs @ Throw e # rest) acc = Inl e"
  by (induction evs arbitrary: acc) simp_all

lemma stream_response_completes:
  "completes items \<Longrightarrow> stream_response items = Inr (concat (arrived items))"
  using collect_parts_arrived [of items "[]"]
  by (simp add: stream_response_def full_response_def)

lemma stream_response_raises:
  "\<not> completes items \<Longrightarrow> \<exists>e. stream_response items = Inl e \<and> Throw e \<in> set items"
  using collect_parts_raises [of items "[]"]
  by (auto simp: stream_response_def)

lemma stream_response_prefix_raise:
  "stream_response (map Yield evs @ Throw e # rest) = Inl e"
  by (simp add: stream_response_def collect_parts_prefix_raise)

lemma stream_response_Inr_iff:
  "stream_response items = Inr r \<longleftrightarrow> completes items \<and> r = concat (arrived items)"
  using stream_response_completes [of items] stream_response_raises [of items]
  by (cases "completes items") auto

lemma snd_report_response: "snd (report_response r) = (r \<noteq> [])"
  by (simp add: report_response_def)

lemma run_test_passes_iff:
  "snd (run_test w session sid i n test) = Inr True \<longleftrightarrow>
     (case map_of session ''user_id'' of
        None \<Rightarrow> False
      | Some uid \<Rightarrow>
          completes (async_stream_query w i uid sid (query test))
          \<and> concat (arrived (async_stream_query w i uid sid (query test))) \<noteq> [])"
proof (cases "map_of session ''user_id''")
  case None
  then show ?thesis by (simp add: run_test_def send_query_def key_error_def)
next
  case (Some uid)
  let ?items = "async_stream_query w i uid sid (query test)"
  show ?thesis
  proof (cases "stream_response ?items")
    case (Inl e)
    then have "\<not> completes ?items"
      using stream_response_completes [of ?items] by auto
    with Some Inl show ?thesis
      by (cases e) (simp_all add: run_test_def send_query_def)
  next
    case (Inr r)
    then have "completes ?items" and "r = concat (arrived ?items)"
      using stream_response_Inr_iff [of ?items r] by simp_all
    with Some Inr show ?thesis
      by (simp add: run_test_def send_query_def snd_report_response)
  qed
qed

section \<open>The loop over the queries and the stages of the harness\<close>

lemma fst_after [simp]: "fst (after es r) = es @ fst r"
  by (simp add: after_def)

lemma snd_after [simp]: "snd (after es r) = snd r"
  by (simp add: after_def)

lemma run_tests_failed_mono:
  "snd (run_tests w session sid n i tests (p, f)) = Inr (p', f') \<Longrightarrow> f \<le> f'"
proof (induction tests arbitrary: i p f)
  case Nil
  then show ?case by simp
next
  case (Cons t ts)
  obtain es r where rt: "run_test w session sid i n t = (es, r)"
    by (cases "run_test w session sid i n t")
  show ?case
  proof (cases r)
    case (Inl e)
    with rt Cons.prems show ?thesis by simp
  next
    case (Inr ok)
    with rt Cons.prems Cons.IH [of "i + 1" "p + 1" f] Cons.IH [of "i + 1" p "f + 1"]
    show ?thesis by (cases ok) auto
  qed
qed

lemma run_tests_all_pass_iff:
  "(\<exists>p'. snd (run_tests w session sid n i tests (p, f)) = Inr (p', f)) \<longleftrightarrow>
   (\<forall>k<length tests. snd (run_test w session sid (i + k) n (tests ! k)) = Inr True)"
proof (induction tests arbitrary: i p f)
  case Nil
  then show ?case by simp
next
  case (Cons t ts)
  obtain es r where rt: "run_test w session sid i n t = (es, r)"
    by (cases "run_test w session sid i n t")
  have shift: "(\<forall>k<length (t # ts). snd (run_test w session sid (i + k) n ((t # ts) ! k)) = Inr True)
      \<longleftrightarrow> r = Inr True
          \<and> (\<forall>k<length ts. snd (run_test w session sid (i + 1 + k) n (ts ! k)) = Inr True)"
    using rt by (simp add: All_less_Suc2)
  show ?case
  proof (cases r)
    case (Inl e)
    with rt shift show ?thesis by simp
  next
    case (Inr ok)
    show ?thesis
    proof (cases ok)
      case True
      with Inr rt shift Cons.IH [of "i + 1" "p + 1" f] show ?thesis by simp
    next
      case False
      have "\<not> (\<exists>p'. snd (run_tests w session sid n (i + 1) ts (p, f + 1)) = Inr (p', f))"
        using run_tests_failed_mono [of w session sid n "i + 1" ts p "f + 1" _ f] by auto
      with False Inr rt shift show ?thesis by simp
    qed
  qed
qed

lemma every_query_passes_iff:
  "every_query_passes w tests session sid \<longleftrightarrow>
   (\<forall>k<length tests. snd (run_test w session sid (Suc k) (length tests) (tests ! k)) = Inr True)"
  by (auto simp: every_query_passes_def list_all_iff)

lemma snd_test_summary:
  "snd (test_summary n p f) = (if n = 0 then Inl (Uncaught (Exception ''division by zero'')) else Inr (f = 0))"
  by (simp add: test_summary_def Let_def)

lemma run_and_summarise_true_iff:
  "snd (run_and_summarise w tests session sid) = Inr True \<longleftrightarrow>
   tests \<noteq> [] \<and> every_query_passes w tests session sid"
proof -
  obtain es r where rt: "run_tests w session sid (length tests) 1 tests (0, 0) = (es, r)"
    by (cases "run_tests w session sid (length tests) 1 tests (0, 0)")
  have iff: "(\<exists>p'. r = Inr (p', 0)) \<longleftrightarrow> every_query_passes w tests session sid"
    using run_tests_all_pass_iff [of w session sid "length tests" 1 tests 0 0] rt
    by (simp add: every_query_passes_iff)
  show ?thesis
  proof (cases r)
    case (Inl e)
    with rt iff show ?thesis by (simp add: run_and_summarise_def)
  next
    case (Inr c)
    obtain p f where c: "c = (p, f)" by (cases c)
    with Inr rt iff show ?thesis
      by (auto simp: run_and_summarise_def snd_test_summary)
  qed
qed

lemma run_and_summarise_end:
  "snd (run_and_summarise w tests session sid) \<noteq> Inl (Exit n)"
  by (auto simp: run_and_summarise_def snd_test_summary split: prod.splits sum.splits)

lemma create_session_and_run_true_iff:
  "snd (create_session_and_run w tests) = Inr True \<longleftrightarrow> session_succeeds w tests"
  by (auto simp: create_session_and_run_def session_succeeds_def key_error_def Let_def
      run_and_summarise_true_iff split: sum.splits exn.splits option.splits)

lemma create_session_and_run_end:
  "snd (create_session_and_run w tests) \<noteq> Inl (Exit 0)"
  by (auto simp: create_session_and_run_def key_error_def Let_def run_and_summarise_end
      split: sum.splits exn.splits option.splits)

lemma connect_and_run_true_iff:
  "snd (connect_and_run w tests rn) = Inr True \<longleftrightarrow>
   \<not> isl (agent_engines_get w rn) \<and> session_succeeds w tests"
  by (auto simp: connect_and_run_def Let_def create_session_and_run_true_iff
      split: sum.splits exn.splits)

lemma connect_and_run_end:
  "snd (connect_and_run w tests rn) \<noteq> Inl (Exit 0)"
  by (auto simp: connect_and_run_def Let_def create_session_and_run_end
      split: sum.splits exn.splits)

lemma test_agent_true_iff:
  "snd (test_agent w tests rn) = Inr True \<longleftrightarrow>
   \<not> isl (vertexai_init w) \<and> \<not> isl (agent_engines_get w rn) \<and> session_succeeds w tests"
  by (auto simp: test_agent_def Let_def connect_and_run_true_iff split: sum.splits)

lemma test_agent_end:
  "snd (test_agent w tests rn) \<noteq> Inl (Exit 0)"
  by (auto simp: test_agent_def Let_def connect_and_run_end split: sum.splits)

lemma run_and_exit_zero_iff:
  "snd (run_and_exit w tests rn) = Exit 0 \<longleftrightarrow>
   \<not> isl (vertexai_init w) \<and> \<not> isl (agent_engines_get w rn) \<and> session_succeeds w tests"
  using test_agent_true_iff [of w tests rn] test_agent_end [of w tests rn]
  by (cases "test_agent w tests rn") (auto simp: run_and_exit_def split: sum.splits)

lemma main_exit_zero_iff:
  "snd (main w tests argv) = Exit 0 \<longleftrightarrow> harness_succeeds w tests argv"
  by (cases "resource_name_of w argv")
     (auto simp: main_def harness_succeeds_def run_and_exit_zero_iff session_succeeds_def
        split: option.splits)

lemma diagnostic_cross [simp]: "diagnostic (Print (cross_mark @ s))"
  by simp
















lemma sdk_calls_simps [simp]:
  "sdk_calls [] = []"
  "sdk_calls (x # t) = sdk_call x @ sdk_calls t"
  "sdk_calls (t @ u) = sdk_calls t @ sdk_calls u"
  by (simp_all add: sdk_calls_def)

lemma sdk_calls_test_header [simp]: "sdk_calls (test_header i n test) = []"
  by (simp add: test_header_def)

lemma sdk_calls_report_response [simp]: "sdk_calls (fst (report_response r)) = []"
  by (simp add: report_response_def)

lemma sdk_calls_test_summary [simp]: "sdk_calls (fst (test_summary n p f)) = []"
  by (simp add: test_summary_def Let_def)
















section \<open>The expected tool of a query is never read\<close>

lemma test_header_expected_tool:
  "test_header i n (expected_tool_update f test) = test_header i n test"
  by (simp add: test_header_def)

lemma send_query_expected_tool:
  "send_query w session sid i (expected_tool_update f test) = send_query w session sid i test"
  by (simp add: send_query_def split: option.splits)

lemma run_test_expected_tool:
  "run_test w session sid i n (expected_tool_update f test) = run_test w session sid i n test"
  by (simp add: run_test_def send_query_expected_tool test_header_expected_tool
      split: prod.splits sum.splits exn.splits)

lemma run_tests_expected_tool:
  "run_tests w session sid n i (map (expected_tool_update f) tests) c
     = run_tests w session sid n i tests c"
proof (induction tests arbitrary: i c)
  case Nil
  then show ?case by simp
next
  case (Cons t ts)
  obtain p q where c: "c = (p, q)" by (cases c)
  with Cons.IH show ?case by (simp add: run_test_expected_tool)
qed

lemma run_and_summarise_expected_tool:
  "run_and_summarise w (map (expected_tool_update f) tests) session sid
     = run_and_summarise w tests session sid"
  by (simp add: run_and_summarise_def run_tests_expected_tool)

lemma create_session_and_run_expected_tool:
  "create_session_and_run w (map (expected_tool_update f) tests) = create_session_and_run w tests"
  by (simp add: create_session_and_run_def Let_def run_and_summarise_expected_tool
      split: sum.splits exn.splits option.splits)

lemma connect_and_run_expected_tool:
  "connect_and_run w (map (expected_tool_update f) tests) rn = connect_and_run w tests rn"
  by (simp add: connect_and_run_def Let_def create_session_and_run_expected_tool
      split: sum.splits exn.splits)

lemma test_agent_expected_tool:
  "test_agent w (map (expected_tool_update f) tests) rn = test_agent w tests rn"
  by (simp add: test_agent_def Let_def connect_and_run_expected_tool split: sum.splits)

lemma main_expected_tool:
  "main w (map (expected_tool_update f) tests) argv = main w tests argv"
  by (simp add: main_def run_and_exit_def test_agent_expected_tool
      split: prod.splits option.splits)

section \<open>The deploy script and the saved resource name\<close>

lemma strip_id:
  "s = [] \<or> (\<not> isspace (hd s) \<and> \<not> isspace (last s)) \<Longrightarrow> strip s = s"
proof (cases "s = []")
  case True
  then show ?thesis by (simp add: strip_def)
next
  case False
  assume "s = [] \<or> (\<not> isspace (hd s) \<and> \<not> isspace (last s))"
  with False have h: "\<not> isspace (hd s)" and l: "\<not> isspace (last s)" by simp_all
  from h False have "dropWhile isspace s = s" by (cases s) simp_all
  moreover from l False have "dropWhile isspace (rev s) = rev s"
    by (cases "rev s") (simp_all add: hd_rev [symmetric])
  ultimately show ?thesis by (simp add: strip_def)
qed






lemma universal_newlines_plain:
  "c \<noteq> CHR 0x0D \<Longrightarrow> universal_newlines (c # cs) = c # universal_newlines cs"
  by (cases cs) simp_all

lemma universal_newlines_write_text:
  "CHR 0x0D \<notin> set s \<Longrightarrow> universal_newlines (write_text p s) = s"
proof (induction s)
  case Nil
  then show ?case by (simp add: write_text_def)
next
  case (Cons c cs)
  then have ih: "universal_newlines (write_text p cs) = cs" and c: "c \<noteq> CHR 0x0D"
    by auto
  have w: "write_text p (c # cs) = (if c = CHR 0x0A then linesep p else [c]) @ write_text p cs"
    by (simp add: write_text_def)
  show ?case
  proof (cases "c = CHR 0x0A")
    case True
    with w ih show ?thesis by (cases p) (simp_all add: universal_newlines_plain)
  next
    case False
    with w ih c show ?thesis by (simp add: universal_newlines_plain)
  qed
qed

lemma deploy_saved:
  assumes "module_imports d = Inr i" and "vertexai_init d = Inr u" and "adk_app d = Inr v"
    and "agent_engines_create d = Inr rn" and "save d = Saved"
  shows "snd (snd (deploy d)) = (files d)(resource_file (here d) \<mapsto> write_text (platform d) rn)"
    and "fst (snd (deploy d)) = Exit 0"
    and "Write (resource_file (here d)) rn \<in> set (fst (deploy d))"
  using assms
  by (simp_all add: deploy_def initialise_and_wrap_def wrap_and_create_def create_and_save_def
      save_and_summarise_def save_resource_name_def after_def Let_def)

text \<open>
  Claim C6, as amended. After a deployment that succeeds and saves, the file
  \<^verbatim>\<open>.agent_resource\<close> beside the script holds the resource name as text mode writes it; a
  later harness run in the same directory on those files, started without a leading
  \<^verbatim>\<open>--resource\<close> and its value, reads that file, resolves exactly that resource name and runs
  the tests on it, provided the name has no leading or trailing whitespace and contains no
  carriage return.
\<close>

theorem resource_name_round_trip:
  assumes "module_imports d = Inr ()" and "vertexai_init d = Inr ()" and "adk_app d = Inr ()"
    and "agent_engines_create d = Inr rn" and "save d = Saved"
    and "rn = [] \<or> (\<not> isspace (hd rn) \<and> \<not> isspace (last rn))"
    and "CHR 0x0D \<notin> set rn"
    and "here w = here d" and "files w = snd (snd (deploy d))"
    and "\<not> (length argv > 1 \<and> argv ! 1 = ''--resource'' \<and> length argv > 2)"
  shows "fst (snd (deploy d)) = Exit 0
    \<and> Write (here d @ [''.agent_resource'']) rn \<in> set (fst (deploy d))
    \<and> snd (snd (deploy d)) (here d @ [''.agent_resource'']) = Some (write_text (platform d) rn)
    \<and> resource_name_of w argv =
        ([Exists (here w @ [''.agent_resource'']), Read_text (here w @ [''.agent_resource''])],
         Some rn)
    \<and> main w tests argv =
        after [Exists (here w @ [''.agent_resource'']), Read_text (here w @ [''.agent_resource''])]
          (run_and_exit w tests rn)"
proof -
  note saved = deploy_saved [OF assms(1-5)]
  have f: "files w (resource_file (here w)) = Some (write_text (platform d) rn)"
    using saved(1) assms(8,9) by simp
  have u: "universal_newlines (write_text (platform d) rn) = rn"
    using assms(7) by (rule universal_newlines_write_text)
  have s: "strip rn = rn" using assms(6) by (rule strip_id)
  have r: "resource_name_of w argv =
      ([Exists (resource_file (here w)), Read_text (resource_file (here w))], Some rn)"
    using f u s assms(10) by (simp add: resource_name_of_def Let_def)
  show ?thesis
    using saved f r by (simp add: main_def resource_file_def)
qed

theorem resource_name_round_trip_witness:
  "example_resource \<noteq> []
   \<and> \<not> isspace (hd example_resource) \<and> \<not> isspace (last example_resource)
   \<and> CHR 0x0D \<notin> set example_resource
   \<and> snd (snd (deploy (deploy_example (Inr example_resource) Saved)))
        [''agent'', ''.agent_resource''] = Some example_resource
   \<and> snd (resource_name_of
        (harness_example (snd (snd (deploy (deploy_example (Inr example_resource) Saved))))
           (fragments [''ok'']))
        [''test_agent.py'']) = Some example_resource"
  using resource_name_round_trip [of "deploy_example (Inr example_resource) Saved"
      example_resource
      "harness_example (snd (snd (deploy (deploy_example (Inr example_resource) Saved))))
         (fragments [''ok''])"
      "[''test_agent.py'']" TEST_QUERIES]
  by (simp add: deploy_example_def harness_example_def example_resource_def isspace_def
      write_text_def)

text \<open>
  The claim as first stated, with no condition on carriage returns, fails for the name made
  of "a", a carriage return and "b": it has no leading or trailing whitespace, the deployment
  succeeds and saves it, and the later harness run resolves "a", a line feed and "b".
\<close>

theorem carriage_return_not_read_back:
  "\<not> isspace (hd cr_name) \<and> \<not> isspace (last cr_name)
   \<and> fst (snd (deploy (deploy_example (Inr cr_name) Saved))) = Exit 0
   \<and> snd (snd (deploy (deploy_example (Inr cr_name) Saved))) [''agent'', ''.agent_resource'']
       = Some cr_name
   \<and> snd (resource_name_of
        (harness_example (snd (snd (deploy (deploy_example (Inr cr_name) Saved))))
           (fragments [''ok'']))
        [''test_agent.py'']) = Some [CHR ''a'', CHR 0x0A, CHR ''b'']
   \<and> [CHR ''a'', CHR 0x0A, CHR ''b''] \<noteq> cr_name"
  by (simp add: cr_name_def isspace_def deploy_example_def harness_example_def deploy_def
      initialise_and_wrap_def wrap_and_create_def create_and_save_def save_and_summarise_def
      save_resource_name_def after_def Let_def resource_file_def resource_name_of_def
      write_text_def strip_def)

text \<open>
  Claim C9. If, after a successful deployment, opening or writing \<^verbatim>\<open>.agent_resource\<close> raises
  an exception, the deploy script prints the warning with the exception's message, then the
  summary with its line DEPLOYMENT SUCCESSFUL!, and ends with exit code 0.
\<close>

theorem save_failure_is_not_fatal:
  assumes "module_imports d = Inr ()" and "vertexai_init d = Inr ()" and "adk_app d = Inr ()"
    and "agent_engines_create d = Inr rn"
    and "save d = Open_raises (Exception e) \<or> save d = Write_raises (Exception e)"
  shows "(\<exists>t. fst (deploy d) =
            t @ [Print (warning_sign @ '' Warning: Could not save resource name: '' @ e)]
              @ deployment_summary (environ d) rn)
    \<and> Print ''DEPLOYMENT SUCCESSFUL!'' \<in> set (deployment_summary (environ d) rn)
    \<and> fst (snd (deploy d)) = Exit 0"
  using assms
  by (auto simp: deploy_def initialise_and_wrap_def wrap_and_create_def create_and_save_def
      save_and_summarise_def save_resource_name_def after_def Let_def deployment_summary_def)

theorem save_failure_is_not_fatal_witness:
  "fst (snd (deploy (deploy_example (Inr example_resource)
      (Open_raises (Exception ''Permission denied''))))) = Exit 0
   \<and> Print (warning_sign @ '' Warning: Could not save resource name: Permission denied'')
       \<in> set (fst (deploy (deploy_example (Inr example_resource)
            (Open_raises (Exception ''Permission denied'')))))"
  using save_failure_is_not_fatal [of "deploy_example (Inr example_resource)
      (Open_raises (Exception ''Permission denied''))" example_resource "''Permission denied''"]
  by (auto simp: deploy_example_def)



section \<open>Exit codes, diagnostics and calls of both scripts\<close>








section \<open>Passing a query, and what becomes of a stream that raises\<close>

text \<open>
  Claim C8, as amended. The harness counts a query as passed iff the session has a user id,
  the stream of the query completes without raising, and the concatenation of its text
  fragments is non-empty. The expected\_tool field of the queries is never used: replacing it
  by anything leaves the whole run unchanged. The run ends with exit code 0 iff it succeeds,
  that is, iff the setup steps succeed and every query passes.
\<close>

theorem pass_iff_completed_nonempty_response:
  "(snd (run_test w session sid i n test) = Inr True \<longleftrightarrow>
      (case map_of session ''user_id'' of
         None \<Rightarrow> False
       | Some uid \<Rightarrow>
           completes (async_stream_query w i uid sid (query test))
           \<and> concat (arrived (async_stream_query w i uid sid (query test))) \<noteq> []))
   \<and> main w (map (expected_tool_update f) tests) argv = main w tests argv
   \<and> (snd (main w tests argv) = Exit 0 \<longleftrightarrow> harness_succeeds w tests argv)"
  using run_test_passes_iff [of w session sid i n test] main_expected_tool [of w f tests argv]
    main_exit_zero_iff [of w tests argv]
  by simp

theorem pass_iff_completed_nonempty_response_witness:
  "snd (run_test (harness_example Map.empty (fragments [''Sales '', ''were '', ''$500'']))
          example_session ''s1'' 1 5 (hd TEST_QUERIES)) = Inr True
   \<and> snd (run_test (harness_example Map.empty (fragments [[]]))
          example_session ''s1'' 1 5 (hd TEST_QUERIES)) \<noteq> Inr True
   \<and> main (harness_example Map.empty (fragments [''ok'']))
        (map (expected_tool_update (\<lambda>t. ''compare_periods'')) TEST_QUERIES) [''test_agent.py'']
      = main (harness_example Map.empty (fragments [''ok''])) TEST_QUERIES [''test_agent.py'']"
  using pass_iff_completed_nonempty_response
      [of "harness_example Map.empty (fragments [''Sales '', ''were '', ''$500''])"
        example_session "''s1''" 1 5 "hd TEST_QUERIES" "\<lambda>t. ''compare_periods''" TEST_QUERIES
        "[''test_agent.py'']"]
    pass_iff_completed_nonempty_response
      [of "harness_example Map.empty (fragments [[]])"
        example_session "''s1''" 1 5 "hd TEST_QUERIES" "\<lambda>t. ''compare_periods''" TEST_QUERIES
        "[''test_agent.py'']"]
    pass_iff_completed_nonempty_response
      [of "harness_example Map.empty (fragments [''ok''])"
        example_session "''s1''" 1 5 "hd TEST_QUERIES" "\<lambda>t. ''compare_periods''" TEST_QUERIES
        "[''test_agent.py'']"]
  by (simp add: harness_example_def example_session_def fragments_def)

text \<open>
  The claim as first stated (passed iff the concatenation of the streamed fragments is
  non-empty) fails on a stream that raises after "Sales " and "were " have arrived: the
  concatenation is non-empty and the query is counted as failed.
\<close>

theorem nonempty_fragments_counted_failed:
  "concat (arrived cut_stream) = ''Sales were ''
   \<and> \<not> (snd (run_test (harness_example Map.empty cut_stream) example_session ''s1'' 1 5
              (hd TEST_QUERIES)) = Inr True
          \<longleftrightarrow> concat (arrived cut_stream) \<noteq> [])"
  by (simp add: cut_stream_def run_test_def send_query_def harness_example_def
      example_session_def stream_response_def)

text \<open>
  Claim C4 as stated fails. When the stream is cancelled after "Sales " and "were " have
  arrived, the run of the query is the same, in what it prints and in what it returns, as
  when the stream is cancelled before any fragment: nothing of the run gives the partial
  output back.
\<close>

theorem partial_output_not_retrievable:
  "concat (arrived cancelled_stream) = ''Sales were ''
   \<and> concat (arrived [Throw (Interrupt ''CancelledError'')]) = []
   \<and> run_test (harness_example Map.empty cancelled_stream) example_session ''s1'' 1 5
        (hd TEST_QUERIES)
     = run_test (harness_example Map.empty [Throw (Interrupt ''CancelledError'')])
        example_session ''s1'' 1 5 (hd TEST_QUERIES)"
  by (simp add: cancelled_stream_def run_test_def send_query_def harness_example_def
      example_session_def stream_response_def)

text \<open>
  Claim C4, as amended. If the stream of a query raises after some prefix of events has
  arrived, the fragments that arrived are discarded: on an \<^verbatim>\<open>Exception\<close> the query is counted
  as failed and only the exception's message is printed; on an interrupt (a cancellation)
  the exception leaves the loop. In both cases what is printed and returned does not depend
  on the events that arrived.
\<close>

theorem raised_stream_discards_fragments:
  assumes "map_of session ''user_id'' = Some uid"
    and "async_stream_query w i uid sid (query test) = map Yield events @ Throw e # rest"
  shows "run_test w session sid i n test =
     (case e of
        Exception m \<Rightarrow>
          (test_header i n test @ [Stream_query uid sid (query test)]
             @ [Print (cross_mark @ '' Test failed: '' @ m), Print []],
           Inr False)
      | Interrupt m \<Rightarrow>
          (test_header i n test @ [Stream_query uid sid (query test)], Inl (Interrupt m)))"
  using assms
  by (cases e) (simp_all add: run_test_def send_query_def stream_response_prefix_raise)

theorem raised_stream_discards_fragments_witness:
  "run_test (harness_example Map.empty cut_stream) example_session ''s1'' 1 5 (hd TEST_QUERIES) =
     (test_header 1 5 (hd TEST_QUERIES)
        @ [Stream_query ''u1'' ''s1'' (query (hd TEST_QUERIES))]
        @ [Print (cross_mark @ '' Test failed: connection reset''), Print []],
      Inr False)"
  using raised_stream_discards_fragments [of example_session "''u1''"
      "harness_example Map.empty cut_stream" 1 "''s1''" "hd TEST_QUERIES"
      "[Event (Some ''Sales ''), Event (Some ''were '')]" "Exception ''connection reset''" "[]" 5]
  by (simp add: harness_example_def example_session_def cut_stream_def)

end
